theory Spec2Isabelle
  imports Complex_Main "HOL-Library.Sublist"
begin

section \<open>Values of the source language\<close>

text \<open>
  The widget is written in TypeScript. Its numbers are modelled as real numbers: the
  geometry below is the arithmetic the source writes, without the rounding of IEEE
  doubles and without NaN or infinities. Where the source divides, the theorems say
  when the divisor is not zero. The rotation is an integer (initial value 0, buttons
  add or subtract 90, the slider has step 1) and is modelled as \<open>int\<close>.
\<close>

text \<open>Truthiness of a number, as tested by \<^verbatim>\<open>if (aspectRatio)\<close> and \<^verbatim>\<open>aspectRatio ? _ : _\<close>.\<close>

definition truthy :: "real \<Rightarrow> bool" where
  "truthy a \<longleftrightarrow> a \<noteq> 0"

text \<open>\<^verbatim>\<open>String.prototype.includes\<close>: the argument occurs as a contiguous substring.\<close>

fun str_includes :: "string \<Rightarrow> string \<Rightarrow> bool" where
  "str_includes [] sub \<longleftrightarrow> sub = []"
| "str_includes (c # cs) sub \<longleftrightarrow> prefix sub (c # cs) \<or> str_includes cs sub"

text \<open>
  \<^verbatim>\<open>activeHandle?.includes("r")\<close> on a value of type \<^verbatim>\<open>string | null\<close>: optional
  chaining yields \<^verbatim>\<open>undefined\<close> (falsy) for \<^verbatim>\<open>null\<close>.
\<close>

definition opt_includes :: "string option \<Rightarrow> string \<Rightarrow> bool" where
  "opt_includes h sub = (case h of None \<Rightarrow> False | Some s \<Rightarrow> str_includes s sub)"

text \<open>
  The remainder operator \<^verbatim>\<open>%\<close> on integral numbers: truncated division, the result
  has the sign of the dividend.
\<close>

definition js_rem :: "int \<Rightarrow> int \<Rightarrow> int" where
  "js_rem a b = sgn a * (\<bar>a\<bar> mod \<bar>b\<bar>)"

section \<open>Data model\<close>

text \<open>\<^verbatim>\<open>interface FrameCoords { tx; ty; sx; sy }\<close>\<close>

record FrameCoords =
  tx :: real
  ty :: real
  sx :: real
  sy :: real

text \<open>The value of \<^verbatim>\<open>dragStart\<close>: \<^verbatim>\<open>{ x, y }\<close>.\<close>

record Point =
  pt_x :: real
  pt_y :: real

text \<open>The result of \<^verbatim>\<open>getBoundingClientRect()\<close>, with the four fields the source reads.\<close>

record DOMRect =
  rect_left :: real
  rect_top :: real
  rect_width :: real
  rect_height :: real

text \<open>
  The component state of \<^verbatim>\<open>ImageCropper\<close> (the \<^verbatim>\<open>useState\<close> cells), with the initial
  values the source gives them.
\<close>

record State =
  rotation :: int
  frame :: FrameCoords
  isDragging :: bool
  dragStart :: Point
  activeHandle :: "string option"
  isLoaded :: bool

definition initialState :: State where
  "initialState =
     \<lparr>rotation = 0,
      frame = \<lparr>tx = 0, ty = 0, sx = 300, sy = 300\<rparr>,
      isDragging = False,
      dragStart = \<lparr>pt_x = 0, pt_y = 0\<rparr>,
      activeHandle = None,
      isLoaded = False\<rparr>"

text \<open>
  The destructuring default \<^verbatim>\<open>aspectRatio = 1\<close>: the prop is optional, and an omitted
  (undefined) prop takes the value 1.
\<close>

definition aspectRatio_of_prop :: "real option \<Rightarrow> real" where
  "aspectRatio_of_prop p = (case p of None \<Rightarrow> 1 | Some a \<Rightarrow> a)"

section \<open>Frame controller\<close>

text \<open>
  \<^verbatim>\<open>handleMouseDown(e, direction)\<close>. The stage element is \<^verbatim>\<open>stageRef.current\<close>, absent
  (\<open>None\<close>) or present with its bounding rectangle. \<^verbatim>\<open>direction || "move"\<close> replaces
  an undefined or empty direction by \<^verbatim>\<open>"move"\<close>.
\<close>

definition direction_or_move :: "string option \<Rightarrow> string" where
  "direction_or_move d = (case d of None \<Rightarrow> ''move'' | Some s \<Rightarrow> if s = [] then ''move'' else s)"

definition handleMouseDown :: "DOMRect option \<Rightarrow> State \<Rightarrow> real \<Rightarrow> real \<Rightarrow> string option \<Rightarrow> State" where
  "handleMouseDown stageRef s clientX clientY direction =
     (case stageRef of
        None \<Rightarrow> s
      | Some rect \<Rightarrow>
          s\<lparr>isDragging := True,
            activeHandle := Some (direction_or_move direction),
            dragStart := \<lparr>pt_x = clientX - rect_left rect, pt_y = clientY - rect_top rect\<rparr>\<rparr>)"

text \<open>
  The four edge computations of the resize branch. Each reads \<^verbatim>\<open>prev\<close> and writes
  \<^verbatim>\<open>newFrame\<close> (here \<open>nf\<close>), in the order of the source: r, l, b, t.
\<close>

definition resize_r :: "string option \<Rightarrow> DOMRect \<Rightarrow> real \<Rightarrow> FrameCoords \<Rightarrow> FrameCoords \<Rightarrow> FrameCoords" where
  "resize_r h rect x prev nf =
     (if opt_includes h ''r''
      then nf\<lparr>sx := max 100 (min (x - tx prev) (rect_width rect - tx prev))\<rparr>
      else nf)"

definition resize_l :: "string option \<Rightarrow> real \<Rightarrow> FrameCoords \<Rightarrow> FrameCoords \<Rightarrow> FrameCoords" where
  "resize_l h x prev nf =
     (if opt_includes h ''l''
      then (let maxLeft = tx prev + sx prev - 100;
                newLeft = max 0 (min x maxLeft)
            in nf\<lparr>sx := sx prev + (tx prev - newLeft), tx := newLeft\<rparr>)
      else nf)"

definition resize_b :: "string option \<Rightarrow> DOMRect \<Rightarrow> real \<Rightarrow> FrameCoords \<Rightarrow> FrameCoords \<Rightarrow> FrameCoords" where
  "resize_b h rect y prev nf =
     (if opt_includes h ''b''
      then nf\<lparr>sy := max 100 (min (y - ty prev) (rect_height rect - ty prev))\<rparr>
      else nf)"

definition resize_t :: "string option \<Rightarrow> real \<Rightarrow> FrameCoords \<Rightarrow> FrameCoords \<Rightarrow> FrameCoords" where
  "resize_t h y prev nf =
     (if opt_includes h ''t''
      then (let maxTop = ty prev + sy prev - 100;
                newTop = max 0 (min y maxTop)
            in nf\<lparr>sy := sy prev + (ty prev - newTop), ty := newTop\<rparr>)
      else nf)"

text \<open>The aspect-ratio step \<^verbatim>\<open>if (aspectRatio) { ... }\<close> that ends the resize branch.\<close>

definition apply_aspect :: "real \<Rightarrow> string option \<Rightarrow> FrameCoords \<Rightarrow> FrameCoords" where
  "apply_aspect aspectRatio h nf =
     (if truthy aspectRatio
      then (if opt_includes h ''r'' \<or> opt_includes h ''l''
            then nf\<lparr>sy := sx nf / aspectRatio\<rparr>
            else nf\<lparr>sx := sy nf * aspectRatio\<rparr>)
      else nf)"

text \<open>
  The function passed to \<^verbatim>\<open>setFrame\<close> in \<^verbatim>\<open>handleMouseMove\<close>:
  \<^verbatim>\<open>(prev) => { const newFrame = { ...prev }; ...; return newFrame; }\<close>.
\<close>

definition frame_updater ::
  "real \<Rightarrow> string option \<Rightarrow> DOMRect \<Rightarrow> real \<Rightarrow> real \<Rightarrow> real \<Rightarrow> real \<Rightarrow> FrameCoords \<Rightarrow> FrameCoords" where
  "frame_updater aspectRatio h rect x y deltaX deltaY prev =
     (if h = Some ''move''
      then prev\<lparr>tx := max 0 (min (tx prev + deltaX) (rect_width rect - sx prev)),
                ty := max 0 (min (ty prev + deltaY) (rect_height rect - sy prev))\<rparr>
      else apply_aspect aspectRatio h
             (resize_t h y prev (resize_b h rect y prev (resize_l h x prev (resize_r h rect x prev prev)))))"

text \<open>\<^verbatim>\<open>handleMouseMove(e)\<close>: nothing happens unless a drag is in progress and the stage exists.\<close>

definition handleMouseMove :: "real \<Rightarrow> DOMRect option \<Rightarrow> State \<Rightarrow> real \<Rightarrow> real \<Rightarrow> State" where
  "handleMouseMove aspectRatio stageRef s clientX clientY =
     (if \<not> isDragging s then s
      else case stageRef of
        None \<Rightarrow> s
      | Some rect \<Rightarrow>
          (let x = clientX - rect_left rect;
               y = clientY - rect_top rect;
               deltaX = x - pt_x (dragStart s);
               deltaY = y - pt_y (dragStart s)
           in s\<lparr>frame := frame_updater aspectRatio (activeHandle s) rect x y deltaX deltaY (frame s),
                 dragStart := \<lparr>pt_x = x, pt_y = y\<rparr>\<rparr>))"

text \<open>\<^verbatim>\<open>handleMouseUp()\<close>, bound to both \<^verbatim>\<open>onMouseUp\<close> and \<^verbatim>\<open>onMouseLeave\<close> of the stage.\<close>

definition handleMouseUp :: "State \<Rightarrow> State" where
  "handleMouseUp s = s\<lparr>isDragging := False, activeHandle := None\<rparr>"

text \<open>The pointer events the stage and the frame receive, and the controller as a machine.\<close>

datatype Event =
    MouseDown real real "string option"
  | MouseMove real real
  | MouseUp
  | MouseLeave

fun step :: "real \<Rightarrow> DOMRect option \<Rightarrow> State \<Rightarrow> Event \<Rightarrow> State" where
  "step aspectRatio stageRef s (MouseDown cx cy d) = handleMouseDown stageRef s cx cy d"
| "step aspectRatio stageRef s (MouseMove cx cy) = handleMouseMove aspectRatio stageRef s cx cy"
| "step aspectRatio stageRef s MouseUp = handleMouseUp s"
| "step aspectRatio stageRef s MouseLeave = handleMouseUp s"

fun run :: "real \<Rightarrow> DOMRect option \<Rightarrow> State \<Rightarrow> Event list \<Rightarrow> State" where
  "run aspectRatio stageRef s [] = s"
| "run aspectRatio stageRef s (e # es) = run aspectRatio stageRef (step aspectRatio stageRef s e) es"

section \<open>Loader\<close>

text \<open>
  The \<^verbatim>\<open>img.onload\<close> callback of the first effect, as far as it sets the frame. The
  effect installs it only when the canvas and its 2D context exist. The arguments are
  the stage element (if any), the decoded image's \<^verbatim>\<open>width\<close> and \<^verbatim>\<open>height\<close>, and the
  canvas's bounding rectangle read after the raster is painted.
\<close>

definition img_onload :: "real \<Rightarrow> DOMRect option \<Rightarrow> real \<Rightarrow> real \<Rightarrow> DOMRect \<Rightarrow> State \<Rightarrow> State" where
  "img_onload aspectRatio stageRef img_width img_height canvasRect s =
     (case stageRef of
        None \<Rightarrow> s
      | Some stageRect \<Rightarrow>
          (let containerSize = min (rect_width stageRect) (rect_height stageRect);
               imgAspectRatio = img_width / img_height;
               canvasWidth = (if imgAspectRatio > 1 then containerSize else containerSize * imgAspectRatio);
               canvasHeight = (if imgAspectRatio > 1 then containerSize / imgAspectRatio else containerSize);
               canvasOffset_x = rect_left canvasRect - rect_left stageRect;
               canvasOffset_y = rect_top canvasRect - rect_top stageRect;
               initialSize = min canvasWidth canvasHeight * 0.5;
               frameWidth = initialSize;
               frameHeight = (if truthy aspectRatio then frameWidth / aspectRatio else initialSize)
           in s\<lparr>frame := \<lparr>tx = canvasOffset_x + (canvasWidth - frameWidth) / 2,
                           ty = canvasOffset_y + (canvasHeight - frameHeight) / 2,
                           sx = frameWidth,
                           sy = frameHeight\<rparr>,
                 isLoaded := True\<rparr>))"

section \<open>Rotation controls and transform stage\<close>

text \<open>
  The two rotate buttons call \<^verbatim>\<open>setRotation((r) => (r - 90 + 360) % 360)\<close> and
  \<^verbatim>\<open>setRotation((r) => (r + 90) % 360)\<close>; the slider calls
  \<^verbatim>\<open>setRotation(value)\<close> with the value it emits.
\<close>

definition rotateLeft :: "int \<Rightarrow> int" where
  "rotateLeft r = js_rem (r - 90 + 360) 360"

definition rotateRight :: "int \<Rightarrow> int" where
  "rotateRight r = js_rem (r + 90) 360"

datatype RotAction = RotateLeft | RotateRight | SliderChange int

fun rotate_action :: "int \<Rightarrow> RotAction \<Rightarrow> int" where
  "rotate_action r RotateLeft = rotateLeft r"
| "rotate_action r RotateRight = rotateRight r"
| "rotate_action r (SliderChange v) = v"

fun rotate_run :: "int \<Rightarrow> RotAction list \<Rightarrow> int" where
  "rotate_run r [] = r"
| "rotate_run r (a # as) = rotate_run (rotate_action r a) as"

text \<open>
  The slider is configured with \<^verbatim>\<open>min={0} max={360} step={1}\<close>: the values it can emit
  are the integers from 0 to 360, both ends included. The buttons are always available.
\<close>

fun slider_range :: "RotAction \<Rightarrow> bool" where
  "slider_range (SliderChange v) \<longleftrightarrow> 0 \<le> v \<and> v \<le> 360"
| "slider_range RotateLeft \<longleftrightarrow> True"
| "slider_range RotateRight \<longleftrightarrow> True"

text \<open>
  The second effect's \<^verbatim>\<open>img.onload\<close>: the size given to the canvas for the rotated
  image, \<^verbatim>\<open>(newWidth, newHeight)\<close>.
\<close>

definition rotated_size :: "int \<Rightarrow> real \<Rightarrow> real \<Rightarrow> real \<times> real" where
  "rotated_size rot imgWidth imgHeight =
     (let radians = (of_int rot * pi) / 180;
          sin_a = \<bar>sin radians\<bar>;
          cos_a = \<bar>cos radians\<bar>;
          newWidth = imgWidth * cos_a + imgHeight * sin_a;
          newHeight = imgWidth * sin_a + imgHeight * cos_a
      in (newWidth, newHeight))"

section \<open>Exporter\<close>

text \<open>
  The displayed canvas \<^verbatim>\<open>canvasRef.current\<close>: its raster size (\<^verbatim>\<open>width\<close>,
  \<^verbatim>\<open>height\<close>) and its bounding rectangle on screen.
\<close>

record Canvas =
  canvas_width :: real
  canvas_height :: real
  canvas_rect :: DOMRect

text \<open>The object \<^verbatim>\<open>adjustedCrop\<close>: \<^verbatim>\<open>{ x, y, width, height }\<close>.\<close>

record Crop =
  crop_x :: real
  crop_y :: real
  crop_width :: real
  crop_height :: real

definition adjustedCrop :: "Canvas \<Rightarrow> DOMRect \<Rightarrow> FrameCoords \<Rightarrow> Crop" where
  "adjustedCrop sourceCanvas stageRect f =
     (let canvasRect = canvas_rect sourceCanvas;
          canvasOffset_x = rect_left canvasRect - rect_left stageRect;
          canvasOffset_y = rect_top canvasRect - rect_top stageRect;
          scale = canvas_width sourceCanvas / rect_width canvasRect
      in \<lparr>crop_x = (tx f - canvasOffset_x) * scale,
          crop_y = (ty f - canvasOffset_y) * scale,
          crop_width = sx f * scale,
          crop_height = sy f * scale\<rparr>)"

text \<open>
  The output canvas is described by the size assigned to it and the drawing calls made
  on its context, in order. \<open>DrawRegion\<close> is the nine-argument
  \<^verbatim>\<open>drawImage(source, sx, sy, sw, sh, dx, dy, dw, dh)\<close> under the default compositing;
  \<open>DrawMask\<close> is \<^verbatim>\<open>drawImage(maskImage, dx, dy, dw, dh)\<close> under
  \<^verbatim>\<open>'destination-in'\<close>. The size is the value the source assigns to
  \<^verbatim>\<open>canvas.width\<close> and \<^verbatim>\<open>canvas.height\<close>.
\<close>

datatype DrawCall =
    DrawRegion Canvas real real real real real real real real
  | DrawMask string real real real real

record Raster =
  raster_width :: real
  raster_height :: real
  raster_draws :: "DrawCall list"

text \<open>\<^verbatim>\<open>canvas.toDataURL(type, quality)\<close>: an encoding of the canvas in the given format.\<close>

datatype Payload = DataURL string real Raster

text \<open>The output canvas after the size assignments and the first \<^verbatim>\<open>drawImage\<close>.\<close>

definition crop_canvas :: "Canvas \<Rightarrow> DOMRect \<Rightarrow> FrameCoords \<Rightarrow> Raster" where
  "crop_canvas sourceCanvas stageRect f =
     (let c = adjustedCrop sourceCanvas stageRect f;
          w = crop_width c;
          h = crop_height c
      in \<lparr>raster_width = w,
          raster_height = h,
          raster_draws = [DrawRegion sourceCanvas (crop_x c) (crop_y c) (crop_width c) (crop_height c) 0 0 w h]\<rparr>)"

text \<open>
  \<^verbatim>\<open>handleCrop()\<close> of the component with rotation. The arguments are
  \<^verbatim>\<open>canvasRef.current\<close>, \<^verbatim>\<open>stageRef.current\<close>, whether
  \<^verbatim>\<open>getContext("2d")\<close> of the new canvas gives a context, and the frame. The result
  \<open>None\<close> is the source's \<^verbatim>\<open>return;\<close> (undefined).
\<close>

definition handleCrop :: "Canvas option \<Rightarrow> DOMRect option \<Rightarrow> bool \<Rightarrow> FrameCoords \<Rightarrow> Payload option" where
  "handleCrop canvasRef stageRef ctx f =
     (case canvasRef of
        None \<Rightarrow> None
      | Some sourceCanvas \<Rightarrow>
          (case stageRef of
             None \<Rightarrow> None
           | Some stageRect \<Rightarrow>
               if \<not> ctx then None
               else Some (DataURL ''image/jpeg'' 1.0 (crop_canvas sourceCanvas stageRect f))))"

text \<open>
  The click handler of the Done button. The callback \<^verbatim>\<open>onChange\<close> is optional; it is
  the caller's code, so it may throw: it is modelled as a function that returns the
  exception it throws, if any. The handler's result is \<open>Inl\<close> of an exception that
  escapes it, or \<open>Inr\<close> of the component state and the list of payloads \<^verbatim>\<open>onChange\<close>
  was called with. A data URL is a non-empty string, so \<^verbatim>\<open>croppedImage &&\<close> tests
  only that \<^verbatim>\<open>handleCrop\<close> returned one.
\<close>

definition done_onClick ::
  "(Payload \<Rightarrow> string option) option \<Rightarrow> Canvas option \<Rightarrow> DOMRect option \<Rightarrow> bool \<Rightarrow> State
     \<Rightarrow> string + State \<times> Payload list" where
  "done_onClick onChange canvasRef stageRef ctx s =
     (case handleCrop canvasRef stageRef ctx (frame s) of
        None \<Rightarrow> Inr (s, [])
      | Some croppedImage \<Rightarrow>
          (case onChange of
             None \<Rightarrow> Inr (s, [])
           | Some callback \<Rightarrow>
               (case callback croppedImage of
                  Some exn \<Rightarrow> Inl exn
                | None \<Rightarrow> Inr (s, [croppedImage]))))"

text \<open>
  \<^verbatim>\<open>handleCrop()\<close> of the component with a mask (\<^verbatim>\<open>maskSrc\<close>). The mask image is
  loaded once; the environment answers with \<^verbatim>\<open>onload\<close> or with \<^verbatim>\<open>onerror\<close> and its
  argument. The result is the value returned, or the value the returned promise
  resolves with, together with the lines written by \<^verbatim>\<open>console.error\<close>.
  \<^verbatim>\<open>if (maskSrc)\<close> holds for a defined, non-empty string.
\<close>

datatype MaskLoad = MaskLoaded | MaskFailed string

datatype LogEntry = ConsoleError string string

definition handleCrop_mask ::
  "Canvas option \<Rightarrow> DOMRect option \<Rightarrow> bool \<Rightarrow> string option \<Rightarrow> MaskLoad \<Rightarrow> FrameCoords
     \<Rightarrow> Payload option \<times> LogEntry list" where
  "handleCrop_mask canvasRef stageRef ctx maskSrc load f =
     (case canvasRef of
        None \<Rightarrow> (None, [])
      | Some sourceCanvas \<Rightarrow>
          (case stageRef of
             None \<Rightarrow> (None, [])
           | Some stageRect \<Rightarrow>
               if \<not> ctx then (None, [])
               else
                 (let canvas = crop_canvas sourceCanvas stageRect f
                  in case maskSrc of
                       None \<Rightarrow> (Some (DataURL ''image/jpeg'' 1.0 canvas), [])
                     | Some m \<Rightarrow>
                         if m = [] then (Some (DataURL ''image/jpeg'' 1.0 canvas), [])
                         else
                           (case load of
                              MaskLoaded \<Rightarrow>
                                (Some (DataURL ''image/png'' 1.0
                                   (canvas\<lparr>raster_draws := raster_draws canvas @
                                      [DrawMask m 0 0 (raster_width canvas) (raster_height canvas)]\<rparr>)), [])
                            | MaskFailed err \<Rightarrow>
                                (Some (DataURL ''image/jpeg'' 1.0 canvas),
                                 [ConsoleError ''Failed to load mask image:'' err])))))"

section \<open>Example configurations\<close>

text \<open>
  A square stage of side \<open>n\<close> at the origin of the page, and the state right after a
  square image of side \<open>n\<close> has loaded into it, the canvas filling the stage.
\<close>

definition square_stage :: "real \<Rightarrow> DOMRect" where
  "square_stage n = \<lparr>rect_left = 0, rect_top = 0, rect_width = n, rect_height = n\<rparr>"

definition loaded_square :: "real \<Rightarrow> real \<Rightarrow> State" where
  "loaded_square aspectRatio n =
     img_onload aspectRatio (Some (square_stage n)) n n (square_stage n) initialState"

text \<open>
  A raster 1200 by 800 shown 400 wide, 68 pixels below the top of a stage whose
  left edge is at 8 and whose top edge is at 40.
\<close>

definition wide_canvas :: Canvas where
  "wide_canvas =
     \<lparr>canvas_width = 1200, canvas_height = 800,
      canvas_rect = \<lparr>rect_left = 8, rect_top = 108, rect_width = 400, rect_height = 800 / 3\<rparr>\<rparr>"

definition wide_stage :: DOMRect where
  "wide_stage = \<lparr>rect_left = 8, rect_top = 40, rect_width = 400, rect_height = 400\<rparr>"


text \<open>The spec's frame invariant: minimum size 100 and inside a stage of the given size.\<close>

definition in_stage :: "DOMRect \<Rightarrow> FrameCoords \<Rightarrow> bool" where
  "in_stage rect f \<longleftrightarrow>
     0 \<le> tx f \<and> 0 \<le> ty f \<and> tx f + sx f \<le> rect_width rect \<and> ty f + sy f \<le> rect_height rect"

definition min_size :: "FrameCoords \<Rightarrow> bool" where
  "min_size f \<longleftrightarrow> 100 \<le> sx f \<and> 100 \<le> sy f"

section \<open>Evaluation\<close>

lemmas resize_defs = resize_r_def resize_l_def resize_b_def resize_t_def apply_aspect_def

lemmas controller_defs =
  handleMouseDown_def handleMouseMove_def handleMouseUp_def frame_updater_def resize_defs
  opt_includes_def truthy_def direction_or_move_def Let_def

lemmas example_defs =
  square_stage_def loaded_square_def img_onload_def initialState_def aspectRatio_of_prop_def

lemma loaded_square_400_frame:
  "frame (loaded_square 2 400) = \<lparr>tx = 100, ty = 150, sx = 200, sy = 100\<rparr>"
  by (simp add: example_defs truthy_def Let_def)

lemma loaded_square_default_frame:
  "frame (loaded_square (aspectRatio_of_prop None) 400) = \<lparr>tx = 100, ty = 100, sx = 200, sy = 200\<rparr>"
  by (simp add: example_defs truthy_def Let_def)

section \<open>Frame controller: the aspect ratio\<close>




text \<open>
  The loader's frame has the ratio: with a truthy aspect ratio, a stage and an image of
  positive width and height, \<open>sx / sy\<close> of the initial frame is the aspect ratio.
\<close>

lemma img_onload_ratio:
  assumes "truthy r" and "0 < rect_width stageRect" and "0 < rect_height stageRect"
    and "0 < w" and "0 < h"
  shows "sx (frame (img_onload r (Some stageRect) w h canvasRect s)) /
         sy (frame (img_onload r (Some stageRect) w h canvasRect s)) = r"
proof -
  have "0 < min (rect_width stageRect) (rect_height stageRect)"
    using assms(2,3) by simp
  moreover have "0 < w / h" using assms(4,5) by simp
  ultimately show ?thesis
    using assms(1) by (auto simp: img_onload_def truthy_def Let_def min_def)
qed



section \<open>Frame controller: what the clamps guarantee\<close>

text \<open>
  With no aspect ratio fixed (a falsy \<^verbatim>\<open>aspectRatio\<close>), every update keeps a frame of
  minimum size inside the stage.
\<close>

lemma frame_updater_free_form:
  assumes "\<not> truthy a" and "in_stage rect f" and "min_size f"
  shows "in_stage rect (frame_updater a h rect x y dx dy f) \<and> min_size (frame_updater a h rect x y dx dy f)"
  using assms
  by (auto simp: frame_updater_def resize_defs in_stage_def min_size_def Let_def)

text \<open>A move-handle update keeps a frame inside the stage, whatever the aspect ratio.\<close>

lemma frame_updater_move_in_stage:
  assumes "in_stage rect f"
  shows "in_stage rect (frame_updater a (Some ''move'') rect x y dx dy f)"
  using assms by (auto simp: frame_updater_def in_stage_def)

text \<open>With the default aspect ratio 1, every update keeps the minimum size.\<close>

lemma frame_updater_unit_min_size:
  assumes "0 \<le> tx f" and "0 \<le> ty f" and "min_size f"
  shows "min_size (frame_updater 1 h rect x y dx dy f) \<and>
         0 \<le> tx (frame_updater 1 h rect x y dx dy f) \<and> 0 \<le> ty (frame_updater 1 h rect x y dx dy f)"
  using assms
  by (auto simp: frame_updater_def resize_defs truthy_def min_size_def Let_def)

section \<open>Frame controller: minimum size and stage bounds\<close>

text \<open>
  Claim C1 (minimum size \<open>sx \<ge> 100\<close>, \<open>sy \<ge> 100\<close> after every move) at a concrete
  input. Aspect ratio 2, a 400 by 400 stage and image: the loaded frame is 200 by 100.
  Pressing the right-edge handle and moving the pointer to \<open>x = 250\<close> gives width 150
  and, by the aspect-ratio step, height 75: the edge computation clamps the width to at
  least 100, the height derived from it is not clamped.
\<close>

theorem min_size_lost_in_aspect_step:
  "min_size (frame (loaded_square 2 400)) \<and>
   frame (run 2 (Some (square_stage 400)) (loaded_square 2 400)
            [MouseDown 300 200 (Some ''r''), MouseMove 250 200])
     = \<lparr>tx = 100, ty = 150, sx = 150, sy = 75\<rparr> \<and>
   \<not> min_size (frame (run 2 (Some (square_stage 400)) (loaded_square 2 400)
            [MouseDown 300 200 (Some ''r''), MouseMove 250 200]))"
  by (simp add: example_defs controller_defs min_size_def)

text \<open>
  Claim C3 (the rectangle stays within the stage) at a concrete input. Default aspect
  ratio, a 400 by 400 stage and image: the loaded frame is 200 by 200 at (100, 100).
  Dragging the frame 100 to the right keeps it inside the stage, at (200, 100).
  Dragging the bottom edge down to \<open>y = 400\<close> then gives height 300 and, by the
  aspect-ratio step, width 300: the right edge is at 500, outside the stage. The edge
  computation caps the height at the stage, the width derived from it is not capped.
\<close>

theorem stage_bounds_lost_in_aspect_step:
  "in_stage (square_stage 400) (frame (loaded_square (aspectRatio_of_prop None) 400)) \<and>
   frame (run (aspectRatio_of_prop None) (Some (square_stage 400))
            (loaded_square (aspectRatio_of_prop None) 400)
            [MouseDown 200 200 (Some ''move''), MouseMove 300 200, MouseUp])
     = \<lparr>tx = 200, ty = 100, sx = 200, sy = 200\<rparr> \<and>
   frame (run (aspectRatio_of_prop None) (Some (square_stage 400))
            (loaded_square (aspectRatio_of_prop None) 400)
            [MouseDown 200 200 (Some ''move''), MouseMove 300 200, MouseUp,
             MouseDown 300 300 (Some ''b''), MouseMove 300 400])
     = \<lparr>tx = 200, ty = 100, sx = 300, sy = 300\<rparr> \<and>
   \<not> in_stage (square_stage 400)
       (frame (run (aspectRatio_of_prop None) (Some (square_stage 400))
            (loaded_square (aspectRatio_of_prop None) 400)
            [MouseDown 200 200 (Some ''move''), MouseMove 300 200, MouseUp,
             MouseDown 300 300 (Some ''b''), MouseMove 300 400]))"
  by (simp add: example_defs controller_defs in_stage_def)

section \<open>Frame controller: the left edge\<close>




section \<open>Frame controller: the default aspect ratio\<close>

text \<open>
  Claim C10. An omitted \<^verbatim>\<open>aspectRatio\<close> is 1, which is truthy, so the aspect-ratio
  step runs in every resize update (a pointer move while dragging with a handle other
  than \<^verbatim>\<open>"move"\<close>, the stage being present): afterwards \<open>sx = sy\<close>.
\<close>

theorem default_aspect_forces_square:
  assumes "isDragging s" and "activeHandle s \<noteq> Some ''move''"
  shows "aspectRatio_of_prop None = 1 \<and> truthy (aspectRatio_of_prop None) \<and>
         sx (frame (handleMouseMove (aspectRatio_of_prop None) (Some rect) s clientX clientY)) =
         sy (frame (handleMouseMove (aspectRatio_of_prop None) (Some rect) s clientX clientY))"
  using assms
  by (simp add: handleMouseMove_def frame_updater_def apply_aspect_def truthy_def
        aspectRatio_of_prop_def Let_def)

theorem default_aspect_forces_square_witness:
  "isDragging (handleMouseDown (Some (square_stage 400)) (loaded_square 1 400) 200 300 (Some ''b'')) \<and>
   activeHandle (handleMouseDown (Some (square_stage 400)) (loaded_square 1 400) 200 300 (Some ''b''))
     \<noteq> Some ''move'' \<and>
   frame (handleMouseMove (aspectRatio_of_prop None) (Some (square_stage 400))
            (handleMouseDown (Some (square_stage 400)) (loaded_square 1 400) 200 300 (Some ''b'')) 200 350)
     = \<lparr>tx = 100, ty = 100, sx = 250, sy = 250\<rparr>"
  using default_aspect_forces_square
      [of "handleMouseDown (Some (square_stage 400)) (loaded_square 1 400) 200 300 (Some ''b'')"
          "square_stage 400" 200 350]
  by (simp add: example_defs controller_defs)


section \<open>Rotation\<close>

lemma js_rem_nonneg: "0 \<le> a \<Longrightarrow> js_rem a 360 = a mod 360"
  by (cases "a = 0") (simp_all add: js_rem_def)

lemma rotateRight_mod: "0 \<le> r \<Longrightarrow> rotateRight r = (r + 90) mod 360"
  by (simp add: rotateRight_def js_rem_nonneg)

lemma rotateLeft_mod: "0 \<le> r \<Longrightarrow> rotateLeft r = (r - 90 + 360) mod 360"
  by (simp add: rotateLeft_def js_rem_nonneg)

lemma rotate_action_range:
  assumes "slider_range a" and "0 \<le> r" and "r \<le> 360"
  shows "0 \<le> rotate_action r a \<and> rotate_action r a \<le> 360"
  using assms by (cases a) (simp_all add: rotateRight_mod rotateLeft_mod less_imp_le)

lemma rotate_run_range:
  assumes "\<forall>a \<in> set as. slider_range a" and "0 \<le> r" and "r \<le> 360"
  shows "0 \<le> rotate_run r as \<and> rotate_run r as \<le> 360"
  using assms
proof (induction as arbitrary: r)
  case Nil
  then show ?case by simp
next
  case (Cons a as)
  then have "0 \<le> rotate_action r a \<and> rotate_action r a \<le> 360"
    by (simp add: rotate_action_range)
  with Cons show ?case by simp
qed

text \<open>The size of the rotated raster at 0 and at 90 degrees, over the reals.\<close>

lemma rotated_size_0: "rotated_size 0 w h = (w, h)"
  by (simp add: rotated_size_def Let_def)

lemma rotated_size_90: "0 \<le> w \<Longrightarrow> 0 \<le> h \<Longrightarrow> rotated_size 90 w h = (h, w)"
  by (simp add: rotated_size_def Let_def)

text \<open>
  Claim C7. From any rotation \<open>r\<close> with \<open>0 \<le> r < 360\<close>, four rotate-right actions
  give \<open>r\<close> again, and so the size computed for the rotated raster,
  \<open>(w\<bar>cos\<bar> + h\<bar>sin\<bar>, w\<bar>sin\<bar> + h\<bar>cos\<bar>)\<close>, is the one computed before them.
\<close>

theorem four_right_rotations:
  assumes "0 \<le> r" and "r < 360"
  shows "rotate_run r [RotateRight, RotateRight, RotateRight, RotateRight] = r \<and>
         rotated_size (rotate_run r [RotateRight, RotateRight, RotateRight, RotateRight]) w h =
           rotated_size r w h \<and>
         rotated_size r w h =
           (w * \<bar>cos (of_int r * pi / 180)\<bar> + h * \<bar>sin (of_int r * pi / 180)\<bar>,
            w * \<bar>sin (of_int r * pi / 180)\<bar> + h * \<bar>cos (of_int r * pi / 180)\<bar>)"
proof -
  have "rotateRight (rotateRight (rotateRight (rotateRight r))) = r"
    using assms by (simp add: rotateRight_mod mod_simps)
  then show ?thesis by (simp add: rotated_size_def Let_def)
qed

theorem four_right_rotations_witness:
  "(0::int) \<le> 45 \<and> (45::int) < 360 \<and>
   rotate_run 45 [RotateRight] = 135 \<and>
   rotate_run 45 [RotateRight, RotateRight, RotateRight, RotateRight] = 45 \<and>
   rotated_size (rotate_run 45 [RotateRight, RotateRight, RotateRight, RotateRight]) 640 480 =
     rotated_size 45 640 480"
  using four_right_rotations [of 45 640 480]
  by (simp add: rotateRight_def js_rem_def)

text \<open>
  Claim C8, as stated, fails at the upper end of the slider: its range is 0 to 360 with
  both ends included, so moving it to the end sets the rotation to 360, which is not
  in \<open>[0, 360)\<close>.
\<close>

theorem rotation_range_counterexample:
  "slider_range (SliderChange 360) \<and>
   rotate_run (rotation initialState) [SliderChange 360] = 360 \<and>
   \<not> rotate_run (rotation initialState) [SliderChange 360] < 360"
  by (simp add: initialState_def)

text \<open>
  Claim C8, amended. The rotation is an integer in \<open>[0, 360]\<close> after every user action:
  from a rotation in that range, any sequence of button presses and slider values
  (integers from 0 to 360) leaves it in that range. Rotate-right maps \<open>r\<close> to
  \<open>(r + 90) mod 360\<close> and rotate-left maps \<open>r\<close> to \<open>(r - 90 + 360) mod 360\<close>, both
  below 360; the slider assigns the value it emits.
\<close>

theorem rotation_range:
  assumes "\<forall>a \<in> set as. slider_range a" and "0 \<le> r" and "r \<le> 360"
  shows "0 \<le> rotate_run r as \<and> rotate_run r as \<le> 360 \<and>
         rotate_action r RotateRight = (r + 90) mod 360 \<and>
         rotate_action r RotateLeft = (r - 90 + 360) mod 360 \<and>
         rotate_action r RotateRight < 360 \<and> rotate_action r RotateLeft < 360 \<and>
         (\<forall>v. rotate_action r (SliderChange v) = v)"
  using rotate_run_range [OF assms] assms(2) by (simp add: rotateRight_mod rotateLeft_mod)

theorem rotation_range_witness:
  "slider_range RotateLeft \<and> slider_range (SliderChange 360) \<and> slider_range RotateRight \<and>
   (0::int) \<le> rotation initialState \<and> rotation initialState \<le> 360 \<and>
   rotate_run (rotation initialState) [RotateLeft] = 270 \<and>
   rotate_run (rotation initialState) [RotateLeft, SliderChange 360, RotateRight, RotateRight] = 180"
  using rotation_range [of "[RotateLeft, SliderChange 360, RotateRight, RotateRight]" "rotation initialState"]
  by (simp add: rotateRight_def rotateLeft_def js_rem_def initialState_def)

section \<open>Exporter\<close>

text \<open>With no mask, the component with a mask exports what the component with rotation does.\<close>

lemma handleCrop_mask_no_mask:
  "handleCrop_mask canvasRef stageRef ctx None load f = (handleCrop canvasRef stageRef ctx f, [])"
  by (simp add: handleCrop_mask_def handleCrop_def split: option.splits)

text \<open>With a mask that loads, the export is a PNG of the crop with the mask drawn over it.\<close>

lemma handleCrop_mask_loaded:
  assumes "m \<noteq> []"
  shows "handleCrop_mask (Some c) (Some stageRect) True (Some m) MaskLoaded f =
           (Some (DataURL ''image/png'' 1
                   ((crop_canvas c stageRect f)
                      \<lparr>raster_draws := raster_draws (crop_canvas c stageRect f) @
                         [DrawMask m 0 0 (raster_width (crop_canvas c stageRect f))
                            (raster_height (crop_canvas c stageRect f))]\<rparr>)), [])"
  using assms by (simp add: handleCrop_mask_def Let_def)

text \<open>When the crop succeeds, the Done handler passes the payload to the callback once.\<close>

lemma done_onClick_calls:
  assumes "handleCrop canvasRef stageRef ctx (frame s) = Some p"
  shows "done_onClick (Some (\<lambda>p. None)) canvasRef stageRef ctx s = Inr (s, [p])"
    and "done_onClick (Some (\<lambda>p. Some e)) canvasRef stageRef ctx s = Inl e"
  using assms by (simp_all add: done_onClick_def)



text \<open>
  Claim C6. When a mask is supplied (\<^verbatim>\<open>maskSrc\<close> a non-empty string) and loading it
  fails, the export gives exactly what the export of the same frame with no mask gives;
  and when the rendering context is available that is the unmasked crop encoded as
  JPEG, with one \<^verbatim>\<open>console.error\<close> line carrying the error.
\<close>

theorem mask_failure_fallback:
  assumes "m \<noteq> []"
  shows "fst (handleCrop_mask canvasRef stageRef ctx (Some m) (MaskFailed err) f) =
           fst (handleCrop_mask canvasRef stageRef ctx None load f) \<and>
         (canvasRef = Some c \<and> stageRef = Some stageRect \<and> ctx \<longrightarrow>
           handleCrop_mask canvasRef stageRef ctx (Some m) (MaskFailed err) f =
             (Some (DataURL ''image/jpeg'' 1 (crop_canvas c stageRect f)),
              [ConsoleError ''Failed to load mask image:'' err]))"
  using assms by (auto simp: handleCrop_mask_def Let_def split: option.splits)

theorem mask_failure_fallback_witness:
  "''mask.png'' \<noteq> [] \<and>
   handleCrop_mask (Some wide_canvas) (Some wide_stage) True (Some ''mask.png'') (MaskFailed ''404'')
       \<lparr>tx = 100, ty = 118, sx = 120, sy = 150\<rparr> =
     (Some (DataURL ''image/jpeg'' 1
             \<lparr>raster_width = 360, raster_height = 450,
              raster_draws = [DrawRegion wide_canvas 300 150 360 450 0 0 360 450]\<rparr>),
      [ConsoleError ''Failed to load mask image:'' ''404'']) \<and>
   fst (handleCrop_mask (Some wide_canvas) (Some wide_stage) True (Some ''mask.png'') (MaskFailed ''404'')
       \<lparr>tx = 100, ty = 118, sx = 120, sy = 150\<rparr>) =
   fst (handleCrop_mask (Some wide_canvas) (Some wide_stage) True None MaskLoaded
       \<lparr>tx = 100, ty = 118, sx = 120, sy = 150\<rparr>)"
proof -
  have m: "''mask.png'' \<noteq> []" by simp
  note t = mask_failure_fallback [OF m, of "Some wide_canvas" "Some wide_stage" True "''404''"
      "\<lparr>tx = 100, ty = 118, sx = 120, sy = 150\<rparr>" MaskLoaded wide_canvas wide_stage]
  have c: "crop_canvas wide_canvas wide_stage \<lparr>tx = 100, ty = 118, sx = 120, sy = 150\<rparr> =
             \<lparr>raster_width = 360, raster_height = 450,
              raster_draws = [DrawRegion wide_canvas 300 150 360 450 0 0 360 450]\<rparr>"
    by (simp add: crop_canvas_def adjustedCrop_def wide_canvas_def wide_stage_def Let_def)
  from t have "handleCrop_mask (Some wide_canvas) (Some wide_stage) True (Some ''mask.png'')
        (MaskFailed ''404'') \<lparr>tx = 100, ty = 118, sx = 120, sy = 150\<rparr> =
     (Some (DataURL ''image/jpeg'' 1
             (crop_canvas wide_canvas wide_stage \<lparr>tx = 100, ty = 118, sx = 120, sy = 150\<rparr>)),
      [ConsoleError ''Failed to load mask image:'' ''404''])"
    by simp
  with m t c show ?thesis by simp
qed

text \<open>
  Claim C9. When the displayed canvas, the stage or the 2D context of the new canvas is
  missing, \<^verbatim>\<open>handleCrop\<close> returns no result, and the Done handler returns normally,
  whatever the callback would do, without calling \<^verbatim>\<open>onChange\<close> and with the component
  state, the frame included, as it was.
\<close>

theorem missing_context_noop:
  assumes "canvasRef = None \<or> stageRef = None \<or> \<not> ctx"
  shows "handleCrop canvasRef stageRef ctx (frame s) = None \<and>
         done_onClick onChange canvasRef stageRef ctx s = Inr (s, [])"
proof -
  have "handleCrop canvasRef stageRef ctx (frame s) = None"
    using assms by (auto simp: handleCrop_def split: option.splits)
  then show ?thesis by (simp add: done_onClick_def)
qed

theorem missing_context_noop_witness:
  "handleCrop (Some wide_canvas) None True (frame initialState) = None \<and>
   done_onClick (Some (\<lambda>p. Some ''callback throws'')) (Some wide_canvas) None True initialState =
     Inr (initialState, [])"
  using missing_context_noop [of "Some wide_canvas" None True initialState "Some (\<lambda>p. Some ''callback throws'')"]
  by simp


end
